theory Spec2Isabelle
  imports Complex_Main
begin

section \<open>The wafer slip model (src/FMU/wafer\_slip\_model.py)\<close>

text \<open>
  The class \<open>WaferSlipDynamics\<close> is a record of its instance attributes, in the order
  in which \<open>__init__\<close> assigns them. Python floats are modelled as the real numbers
  (rounding, infinities and NaN are outside the model), the Integer variable
  \<open>wafer_type\<close> as an unbounded \<open>int\<close>. The class keeps no lifecycle attribute, so the
  record has none.
\<close>

record WaferSlipDynamics =
  angular_acceleration :: real
  vacuum_pressure :: real
  wafer_type :: int
  slip_factor :: real
  max_safe_acceleration :: real
  is_slipping :: bool
  mu_friction :: real
  safety_margin :: real
  wafer_mass :: real
  wafer_radius :: real
  chuck_area :: real

text \<open>
  The only exception the arithmetic of the module can raise is the one of a float
  division by zero.
\<close>

datatype error = ZeroDivisionError

definition py_div :: "real \<Rightarrow> real \<Rightarrow> error + real" where
  "py_div a b = (if b = 0 then Inl ZeroDivisionError else Inr (a / b))"

text \<open>
  \<open>math.pi\<close> is the double nearest to \<open>\<pi>\<close>, the rational
  \<open>884279719003555 / 2 ^ 48\<close>.
\<close>

definition math_pi :: real where
  "math_pi = 884279719003555 / 281474976710656"

text \<open>\<open>_update_wafer_properties\<close> (lines 79 to 99).\<close>

definition update_wafer_properties :: "WaferSlipDynamics \<Rightarrow> WaferSlipDynamics" where
  "update_wafer_properties self0 =
     (let chuck_radius = 0.030;
          self = self0\<lparr>chuck_area := math_pi * (chuck_radius ^ 2)\<rparr>;
          wafer_density = 2330;
          wafer_thickness = 0.5
      in if wafer_type self = 1 then
           self\<lparr>wafer_mass := wafer_density * (math_pi * (0.150 ^ 2) * wafer_thickness * 0.001),
                wafer_radius := 0.150\<rparr>
         else if wafer_type self = 2 then
           self\<lparr>wafer_mass := wafer_density * (math_pi * (0.100 ^ 2) * wafer_thickness * 0.001),
                wafer_radius := 0.100\<rparr>
         else if wafer_type self = 3 then
           self\<lparr>wafer_mass := wafer_density * (math_pi * (0.075 ^ 2) * wafer_thickness * 0.001),
                wafer_radius := 0.075\<rparr>
         else
           self\<lparr>wafer_mass := wafer_density * (math_pi * (0.150 ^ 2) * wafer_thickness * 0.001),
                wafer_radius := 0.150\<rparr>)"

text \<open>
  \<open>__init__\<close> (lines 20 to 77): the attribute defaults, then
  \<open>_update_wafer_properties\<close>. The calls of \<open>register_variable\<close> only declare the
  interface and change no attribute.
\<close>

definition init :: WaferSlipDynamics where
  "init = update_wafer_properties
     \<lparr>angular_acceleration = 0.0, vacuum_pressure = 0.0, wafer_type = 1,
      slip_factor = 0.0, max_safe_acceleration = 0.0, is_slipping = False,
      mu_friction = 0.6, safety_margin = 0.85,
      wafer_mass = 0.125, wafer_radius = 0.150, chuck_area = 0.0707\<rparr>"

text \<open>
  \<open>do_step\<close> (lines 101 to 141). The result is the exception raised, or the updated
  object with the returned flag. Each of the two divisions is \<open>py_div\<close>, under the
  guard the source puts before it.
\<close>

definition do_step ::
  "WaferSlipDynamics \<Rightarrow> real \<Rightarrow> real \<Rightarrow> error + (WaferSlipDynamics \<times> bool)" where
  "do_step self0 current_time step_size =
     (let self = update_wafer_properties self0;
          pressure_diff = \<bar>vacuum_pressure self\<bar>;
          friction_force = mu_friction self * (pressure_diff * chuck_area self);
          inertial_force = wafer_mass self * wafer_radius self * \<bar>angular_acceleration self\<bar>
      in case (if friction_force > 0.001 then py_div inertial_force friction_force
               else Inr 999.0) of
           Inl e \<Rightarrow> Inl e
         | Inr sf \<Rightarrow>
            (let self = self\<lparr>slip_factor := sf\<rparr>
             in case (if wafer_mass self > 0 \<and> wafer_radius self > 0
                      then py_div friction_force (wafer_mass self * wafer_radius self)
                      else Inr 0.0) of
                  Inl e \<Rightarrow> Inl e
                | Inr msa \<Rightarrow>
                   (let self = self\<lparr>max_safe_acceleration := msa\<rparr>;
                        self = self\<lparr>is_slipping := (slip_factor self > safety_margin self)\<rparr>
                    in Inr (self, True))))"

text \<open>The lifecycle methods (lines 143 to 166), each with the flag it returns.\<close>

definition setup_experiment ::
  "WaferSlipDynamics \<Rightarrow> real \<Rightarrow> real option \<Rightarrow> real option \<Rightarrow> WaferSlipDynamics \<times> bool" where
  "setup_experiment self start_time stop_time tolerance =
     (self\<lparr>slip_factor := 0.0, is_slipping := False\<rparr>, True)"

definition enter_initialization_mode :: "WaferSlipDynamics \<Rightarrow> WaferSlipDynamics \<times> bool" where
  "enter_initialization_mode self = (self, True)"

definition exit_initialization_mode :: "WaferSlipDynamics \<Rightarrow> WaferSlipDynamics \<times> bool" where
  "exit_initialization_mode self = (self, True)"

definition terminate :: "WaferSlipDynamics \<Rightarrow> WaferSlipDynamics \<times> bool" where
  "terminate self = (self, True)"

definition reset :: "WaferSlipDynamics \<Rightarrow> WaferSlipDynamics \<times> bool" where
  "reset self = (self\<lparr>slip_factor := 0.0, is_slipping := False\<rparr>, True)"

section \<open>Facts about the resolver and the step\<close>

lemma math_pi_pos: "0 < math_pi"
  by (simp add: math_pi_def)

lemma update_wafer_mass_pos: "0 < wafer_mass (update_wafer_properties s)"
  using math_pi_pos by (simp add: update_wafer_properties_def Let_def)

lemma update_wafer_radius_pos: "0 < wafer_radius (update_wafer_properties s)"
  by (simp add: update_wafer_properties_def Let_def)

lemma update_chuck_area: "chuck_area (update_wafer_properties s) = math_pi * (0.030 ^ 2)"
  by (simp add: update_wafer_properties_def Let_def)

lemma update_chuck_area_pos: "0 < chuck_area (update_wafer_properties s)"
  using math_pi_pos by (simp add: update_chuck_area)

lemma update_frame:
  "angular_acceleration (update_wafer_properties s) = angular_acceleration s"
  "vacuum_pressure (update_wafer_properties s) = vacuum_pressure s"
  "wafer_type (update_wafer_properties s) = wafer_type s"
  "slip_factor (update_wafer_properties s) = slip_factor s"
  "max_safe_acceleration (update_wafer_properties s) = max_safe_acceleration s"
  "is_slipping (update_wafer_properties s) = is_slipping s"
  "mu_friction (update_wafer_properties s) = mu_friction s"
  "safety_margin (update_wafer_properties s) = safety_margin s"
  by (simp_all add: update_wafer_properties_def Let_def)

text \<open>
  The step written without the exception plumbing: both guarded divisions succeed, the
  second one because the resolver has just set a positive mass and radius.
\<close>

lemma do_step_unfold:
  "do_step s t h =
     Inr ((update_wafer_properties s)
            \<lparr>slip_factor :=
               (if mu_friction s * (\<bar>vacuum_pressure s\<bar> * chuck_area (update_wafer_properties s)) > 0.001
                then wafer_mass (update_wafer_properties s) * wafer_radius (update_wafer_properties s)
                       * \<bar>angular_acceleration s\<bar>
                     / (mu_friction s * (\<bar>vacuum_pressure s\<bar> * chuck_area (update_wafer_properties s)))
                else 999),
             max_safe_acceleration :=
               mu_friction s * (\<bar>vacuum_pressure s\<bar> * chuck_area (update_wafer_properties s))
                 / (wafer_mass (update_wafer_properties s) * wafer_radius (update_wafer_properties s)),
             is_slipping :=
               ((if mu_friction s * (\<bar>vacuum_pressure s\<bar> * chuck_area (update_wafer_properties s)) > 0.001
                 then wafer_mass (update_wafer_properties s) * wafer_radius (update_wafer_properties s)
                        * \<bar>angular_acceleration s\<bar>
                      / (mu_friction s * (\<bar>vacuum_pressure s\<bar> * chuck_area (update_wafer_properties s)))
                 else 999) > safety_margin s)\<rparr>, True)"
proof -
  have m: "0 < wafer_mass (update_wafer_properties s)"
    by (rule update_wafer_mass_pos)
  have r: "0 < wafer_radius (update_wafer_properties s)"
    by (rule update_wafer_radius_pos)
  from m r have mr: "wafer_mass (update_wafer_properties s) * wafer_radius (update_wafer_properties s) \<noteq> 0"
    by simp
  show ?thesis
    using m r mr by (simp add: do_step_def Let_def py_div_def update_frame)
qed

lemma do_step_slip_factor:
  assumes "do_step s t h = Inr (s', b)"
  shows "slip_factor s' =
           (if mu_friction s * (\<bar>vacuum_pressure s\<bar> * chuck_area (update_wafer_properties s)) > 0.001
            then wafer_mass (update_wafer_properties s) * wafer_radius (update_wafer_properties s)
                   * \<bar>angular_acceleration s\<bar>
                 / (mu_friction s * (\<bar>vacuum_pressure s\<bar> * chuck_area (update_wafer_properties s)))
            else 999)"
  using assms unfolding do_step_unfold by auto

lemma do_step_max_safe_acceleration:
  assumes "do_step s t h = Inr (s', b)"
  shows "max_safe_acceleration s' =
           mu_friction s * (\<bar>vacuum_pressure s\<bar> * chuck_area (update_wafer_properties s))
             / (wafer_mass (update_wafer_properties s) * wafer_radius (update_wafer_properties s))"
  using assms unfolding do_step_unfold by auto

lemma do_step_derived:
  assumes "do_step s t h = Inr (s', b)"
  shows "wafer_mass s' = wafer_mass (update_wafer_properties s)"
    and "wafer_radius s' = wafer_radius (update_wafer_properties s)"
    and "chuck_area s' = chuck_area (update_wafer_properties s)"
  using assms unfolding do_step_unfold by auto

text \<open>The derived fields depend on the wafer type alone.\<close>

lemma update_derived_by_type:
  assumes "wafer_type s = wafer_type s'"
  shows "wafer_mass (update_wafer_properties s) = wafer_mass (update_wafer_properties s')"
    and "wafer_radius (update_wafer_properties s) = wafer_radius (update_wafer_properties s')"
    and "chuck_area (update_wafer_properties s) = chuck_area (update_wafer_properties s')"
  using assms by (simp_all add: update_wafer_properties_def Let_def)

lemma update_idem:
  "update_wafer_properties (update_wafer_properties s) = update_wafer_properties s"
  by (simp add: update_wafer_properties_def Let_def)

lemma update_outputs_commute:
  "update_wafer_properties (s\<lparr>slip_factor := a, max_safe_acceleration := b, is_slipping := c\<rparr>)
     = (update_wafer_properties s)\<lparr>slip_factor := a, max_safe_acceleration := b, is_slipping := c\<rparr>"
  by (simp add: update_wafer_properties_def Let_def)

text \<open>The object a step returns is a fixed point of the step.\<close>

lemma do_step_fixpoint:
  assumes "do_step s t h = Inr (s1, b)"
  shows "do_step s1 t' h' = Inr (s1, True)"
proof -
  from assms obtain sf msa sl where
    s1: "s1 = (update_wafer_properties s)\<lparr>slip_factor := sf, max_safe_acceleration := msa, is_slipping := sl\<rparr>"
    and sf: "sf = (if mu_friction s * (\<bar>vacuum_pressure s\<bar> * chuck_area (update_wafer_properties s)) > 0.001
                then wafer_mass (update_wafer_properties s) * wafer_radius (update_wafer_properties s)
                       * \<bar>angular_acceleration s\<bar>
                     / (mu_friction s * (\<bar>vacuum_pressure s\<bar> * chuck_area (update_wafer_properties s)))
                else 999)"
    and msa: "msa = mu_friction s * (\<bar>vacuum_pressure s\<bar> * chuck_area (update_wafer_properties s))
                 / (wafer_mass (update_wafer_properties s) * wafer_radius (update_wafer_properties s))"
    and sl: "sl = (sf > safety_margin s)"
    unfolding do_step_unfold by auto
  have u: "update_wafer_properties s1 = s1"
    unfolding s1 by (simp add: update_outputs_commute update_idem)
  have f: "mu_friction s1 = mu_friction s" "vacuum_pressure s1 = vacuum_pressure s"
    "angular_acceleration s1 = angular_acceleration s" "safety_margin s1 = safety_margin s"
    "chuck_area s1 = chuck_area (update_wafer_properties s)"
    "wafer_mass s1 = wafer_mass (update_wafer_properties s)"
    "wafer_radius s1 = wafer_radius (update_wafer_properties s)"
    unfolding s1 by (simp_all add: update_frame)
  have "do_step s1 t' h' = Inr (s1\<lparr>slip_factor := sf, max_safe_acceleration := msa, is_slipping := sl\<rparr>, True)"
    unfolding do_step_unfold [of s1] u f sf msa sl by simp
  also have "s1\<lparr>slip_factor := sf, max_safe_acceleration := msa, is_slipping := sl\<rparr> = s1"
    unfolding s1 by simp
  finally show ?thesis .
qed

text \<open>
  A step reads the three inputs and the two parameters and nothing else of the object:
  the outputs and the derived fields it finds are overwritten before they are read.
\<close>

lemma do_step_inputs_only:
  assumes "angular_acceleration s' = angular_acceleration s"
    and "vacuum_pressure s' = vacuum_pressure s"
    and "wafer_type s' = wafer_type s"
    and "mu_friction s' = mu_friction s"
    and "safety_margin s' = safety_margin s"
  shows "do_step s' t' h' = do_step s t h"
  using assms
  by (cases s, cases s') (simp add: do_step_def update_wafer_properties_def Let_def py_div_def)

text \<open>The definitions a concrete run unfolds.\<close>

lemmas eval_defs =
  do_step_def init_def update_wafer_properties_def math_pi_def py_div_def Let_def power2_eq_square


section \<open>The claims\<close>

subsection \<open>C1: a step outside the running phase\<close>

text \<open>
  C1 as stated, that a step before \<open>exit_initialization_mode\<close> raises an ordering
  error and leaves the outputs alone, fails on the freshly constructed object: no
  lifecycle method has been called, the step returns True, and \<open>slip_factor\<close> goes
  from 0 to the sentinel 999 and \<open>is_slipping\<close> from False to True.
\<close>

theorem do_step_before_exit_initialization_counterexample:
  "do_step init 0 (1 / 10)
     = Inr (init\<lparr>slip_factor := 999, max_safe_acceleration := 0, is_slipping := True\<rparr>, True)
   \<and> slip_factor init = 0 \<and> is_slipping init = False"
  by (simp add: eval_defs)

text \<open>
  C1, amended. The engine records no lifecycle phase: \<open>exit_initialization_mode\<close>
  returns True and changes nothing, a step gives the same result whether or not
  \<open>exit_initialization_mode\<close> was called before it, and in every state the step
  raises nothing, returns True and writes the outputs it computes from the inputs:
  the mass, radius and chuck area of the resolver, \<open>slip_factor\<close> as the ratio of
  inertial to friction force when the friction force exceeds 1e-3 and 999.0 otherwise,
  \<open>max_safe_acceleration\<close> as the friction force over mass * radius, and
  \<open>is_slipping\<close> as (\<open>slip_factor\<close> > \<open>safety_margin\<close>).
\<close>

theorem do_step_ignores_lifecycle:
  "exit_initialization_mode s = (s, True)
   \<and> do_step (fst (exit_initialization_mode s)) t h = do_step s t h
   \<and> (\<exists>s'. do_step s t h = Inr (s', True)
         \<and> wafer_mass s' = wafer_mass (update_wafer_properties s)
         \<and> wafer_radius s' = wafer_radius (update_wafer_properties s)
         \<and> chuck_area s' = chuck_area (update_wafer_properties s)
         \<and> slip_factor s' =
             (if mu_friction s * \<bar>vacuum_pressure s\<bar> * chuck_area s' > 0.001
              then (wafer_mass s' * wafer_radius s' * \<bar>angular_acceleration s\<bar>)
                     / (mu_friction s * \<bar>vacuum_pressure s\<bar> * chuck_area s')
              else 999.0)
         \<and> max_safe_acceleration s' =
             mu_friction s * \<bar>vacuum_pressure s\<bar> * chuck_area s' / (wafer_mass s' * wafer_radius s')
         \<and> is_slipping s' = (slip_factor s' > safety_margin s))"
  by (simp add: exit_initialization_mode_def do_step_unfold mult.assoc)

subsection \<open>C2: the outputs of a step\<close>

text \<open>
  C2. For every state and all inputs, a step returns an object \<open>s'\<close> whose mass, radius
  and chuck area are the ones the resolver computes from the current \<open>wafer_type\<close>, and
  whose outputs are: \<open>slip_factor\<close> = mass * radius * |angular\_acceleration| /
  (mu\_friction * |vacuum\_pressure| * chuck\_area) when that friction force exceeds
  1e-3, and 999.0 otherwise; \<open>max_safe_acceleration\<close> = friction force / (mass * radius)
  when mass and radius are both positive, and 0.0 otherwise; \<open>is_slipping\<close> =
  (\<open>slip_factor\<close> > \<open>safety_margin\<close>).
\<close>

theorem do_step_outputs:
  "\<exists>s'. do_step s t h = Inr (s', True)
     \<and> wafer_mass s' = wafer_mass (update_wafer_properties s)
     \<and> wafer_radius s' = wafer_radius (update_wafer_properties s)
     \<and> chuck_area s' = chuck_area (update_wafer_properties s)
     \<and> slip_factor s' =
         (if mu_friction s * \<bar>vacuum_pressure s\<bar> * chuck_area s' > 0.001
          then (wafer_mass s' * wafer_radius s' * \<bar>angular_acceleration s\<bar>)
                 / (mu_friction s * \<bar>vacuum_pressure s\<bar> * chuck_area s')
          else 999.0)
     \<and> max_safe_acceleration s' =
         (if wafer_mass s' > 0 \<and> wafer_radius s' > 0
          then mu_friction s * \<bar>vacuum_pressure s\<bar> * chuck_area s' / (wafer_mass s' * wafer_radius s')
          else 0.0)
     \<and> is_slipping s' = (slip_factor s' > safety_margin s)"
  by (simp add: do_step_unfold update_wafer_mass_pos update_wafer_radius_pos mult.assoc)

subsection \<open>C3: the slip factor against the vacuum pressure\<close>

text \<open>
  C3 as stated, that for 0 < p1 \<le> p2 the slip factor at p2 is at most the one at p1,
  fails where the pair crosses the 1e-3 threshold of the friction force. On the default
  300mm object at 1000 rad/s^2, the pressure 0.5 Pa gives a friction force below the
  threshold and the sentinel 999; the pressure 1 Pa gives a friction force above it and
  the ratio 7281.25.
\<close>

theorem slip_factor_pressure_counterexample:
  "(0 :: real) < 1 / 2 \<and> (1 / 2 :: real) \<le> 1
   \<and> do_step (init\<lparr>angular_acceleration := 1000, vacuum_pressure := 1 / 2\<rparr>) 0 (1 / 10)
       = Inr (init\<lparr>angular_acceleration := 1000, vacuum_pressure := 1 / 2,
                   slip_factor := 999, max_safe_acceleration := 16 / 233,
                   is_slipping := True\<rparr>, True)
   \<and> do_step (init\<lparr>angular_acceleration := 1000, vacuum_pressure := 1\<rparr>) 0 (1 / 10)
       = Inr (init\<lparr>angular_acceleration := 1000, vacuum_pressure := 1,
                   slip_factor := 29125 / 4, max_safe_acceleration := 32 / 233,
                   is_slipping := True\<rparr>, True)
   \<and> \<not> ((29125 / 4 :: real) \<le> 999)"
  by (simp add: eval_defs)

text \<open>
  C3, amended. With the acceleration, the wafer type and the parameters fixed and
  0 < p1 \<le> p2, the slip factor at p2 is at most the slip factor at p1 in every case
  but one: the friction force at p1 is at most 1e-3 (so the step writes the sentinel
  999), the friction force at p2 exceeds 1e-3, and the inertial force exceeds 999 times
  the friction force at p2. In that case the slip factor at p2 is the greater one.
\<close>

theorem slip_factor_antimono_pressure:
  assumes "0 < p1" and "p1 \<le> p2"
    and "do_step (s\<lparr>vacuum_pressure := p1\<rparr>) t1 h1 = Inr (s1, b1)"
    and "do_step (s\<lparr>vacuum_pressure := p2\<rparr>) t2 h2 = Inr (s2, b2)"
  shows "(slip_factor s2 \<le> slip_factor s1)
         = (\<not> (mu_friction s * (p1 * chuck_area s1) \<le> 0.001
               \<and> 0.001 < mu_friction s * (p2 * chuck_area s2)
               \<and> 999 * (mu_friction s * (p2 * chuck_area s2))
                   < wafer_mass s2 * wafer_radius s2 * \<bar>angular_acceleration s\<bar>))"
proof -
  let ?u = "update_wafer_properties s"
  let ?A = "chuck_area ?u"
  let ?I = "wafer_mass ?u * wafer_radius ?u * \<bar>angular_acceleration s\<bar>"
  let ?f1 = "mu_friction s * (p1 * ?A)"
  let ?f2 = "mu_friction s * (p2 * ?A)"
  have d: "wafer_mass (update_wafer_properties (s\<lparr>vacuum_pressure := p\<rparr>)) = wafer_mass ?u"
    "wafer_radius (update_wafer_properties (s\<lparr>vacuum_pressure := p\<rparr>)) = wafer_radius ?u"
    "chuck_area (update_wafer_properties (s\<lparr>vacuum_pressure := p\<rparr>)) = ?A" for p
    by (simp_all add: update_derived_by_type [of "s\<lparr>vacuum_pressure := p\<rparr>" s])
  have p: "\<bar>p1\<bar> = p1" "\<bar>p2\<bar> = p2"
    using assms(1,2) by simp_all
  have sf1: "slip_factor s1 = (if ?f1 > 0.001 then ?I / ?f1 else 999)"
    using do_step_slip_factor [OF assms(3)] by (simp add: d p)
  have sf2: "slip_factor s2 = (if ?f2 > 0.001 then ?I / ?f2 else 999)"
    using do_step_slip_factor [OF assms(4)] by (simp add: d p)
  have e: "chuck_area s1 = ?A" "chuck_area s2 = ?A"
    "wafer_mass s2 = wafer_mass ?u" "wafer_radius s2 = wafer_radius ?u"
    using do_step_derived [OF assms(3)] do_step_derived [OF assms(4)] by (simp_all add: d)
  have A: "0 < ?A" by (rule update_chuck_area_pos)
  have I: "0 \<le> ?I"
    using update_wafer_mass_pos [of s] update_wafer_radius_pos [of s] by simp
  have pA: "0 < p1 * ?A" "p1 * ?A \<le> p2 * ?A"
    using assms(1,2) A by simp_all
  consider (above) "?f1 > 0.001" | (below) "?f2 \<le> 0.001" | (cross) "?f1 \<le> 0.001" "0.001 < ?f2"
    by linarith
  then have "(slip_factor s2 \<le> slip_factor s1) = (\<not> (?f1 \<le> 0.001 \<and> 0.001 < ?f2 \<and> 999 * ?f2 < ?I))"
  proof cases
    case above
    then have "0 < mu_friction s * (p1 * ?A)" by simp
    then have mu: "0 < mu_friction s"
      using pA(1) by (rule zero_less_mult_pos2)
    then have le: "?f1 \<le> ?f2"
      using pA(2) by simp
    with above have f2: "?f2 > 0.001" by linarith
    from above have "0 < ?f1" by simp
    moreover from f2 have "0 < ?f2" by simp
    ultimately have "0 < ?f2 * ?f1"
      by (rule mult_pos_pos [rotated])
    with le I have "?I / ?f2 \<le> ?I / ?f1"
      by (rule divide_left_mono)
    then show ?thesis
      using above f2 by (simp add: sf1 sf2)
  next
    case below
    have "?f1 \<le> 0.001"
    proof (cases "0 \<le> mu_friction s")
      case True
      then have "?f1 \<le> ?f2" using pA(2) by (simp add: mult_left_mono)
      with below show ?thesis by linarith
    next
      case False
      then have "?f1 \<le> 0" using pA(1) by (simp add: mult_le_0_iff)
      then show ?thesis by simp
    qed
    with below show ?thesis by (simp add: sf1 sf2)
  next
    case cross
    then have "0 < ?f2" by simp
    then have "(?I / ?f2 \<le> 999) = (?I \<le> 999 * ?f2)"
      by (simp add: pos_divide_le_eq)
    with cross show ?thesis by (simp add: sf1 sf2 not_less)
  qed
  then show ?thesis by (simp add: e)
qed

text \<open>
  The amended C3 at 10 Pa and 53000 Pa, 5 rad/s^2, on the default 300mm object: both
  friction forces exceed the threshold and the slip factor falls from 233/64 to
  233/339200.
\<close>

theorem slip_factor_antimono_pressure_witness:
  "(0 :: real) < 10 \<and> (10 :: real) \<le> 53000
   \<and> do_step (init\<lparr>angular_acceleration := 5, vacuum_pressure := 10\<rparr>) (1 / 5) (1 / 10)
       = Inr (init\<lparr>angular_acceleration := 5, vacuum_pressure := 10,
                   slip_factor := 233 / 64, max_safe_acceleration := 320 / 233,
                   is_slipping := True\<rparr>, True)
   \<and> do_step (init\<lparr>angular_acceleration := 5, vacuum_pressure := 53000\<rparr>) 0 (1 / 10)
       = Inr (init\<lparr>angular_acceleration := 5, vacuum_pressure := 53000,
                   slip_factor := 233 / 339200, max_safe_acceleration := 1696000 / 233,
                   is_slipping := False\<rparr>, True)
   \<and> (233 / 339200 :: real) \<le> 233 / 64"
proof -
  have 1: "do_step ((init\<lparr>angular_acceleration := 5\<rparr>)\<lparr>vacuum_pressure := 10\<rparr>) (1 / 5) (1 / 10)
       = Inr (init\<lparr>angular_acceleration := 5, vacuum_pressure := 10,
                   slip_factor := 233 / 64, max_safe_acceleration := 320 / 233,
                   is_slipping := True\<rparr>, True)"
    by (simp add: eval_defs)
  have 2: "do_step ((init\<lparr>angular_acceleration := 5\<rparr>)\<lparr>vacuum_pressure := 53000\<rparr>) 0 (1 / 10)
       = Inr (init\<lparr>angular_acceleration := 5, vacuum_pressure := 53000,
                   slip_factor := 233 / 339200, max_safe_acceleration := 1696000 / 233,
                   is_slipping := False\<rparr>, True)"
    by (simp add: eval_defs)
  have a: "(0 :: real) < 10" and b: "(10 :: real) \<le> 53000" by simp_all
  from slip_factor_antimono_pressure [OF a b 1 2] a b 1 2 show ?thesis
    by (simp add: eval_defs)
qed

subsection \<open>C4: the fallback of the resolver\<close>

text \<open>
  C4. For every \<open>wafer_type\<close> outside {1, 2, 3} the resolver returns (it has no failing
  branch) the object with the mass and radius it computes for \<open>wafer_type\<close> = 1, the
  radius being 0.150, and with the chuck area; it is a function of the object, and it
  changes no field but these three.
\<close>

theorem update_unrecognized_wafer_type:
  assumes "wafer_type s \<notin> {1, 2, 3}"
  shows "update_wafer_properties s
           = s\<lparr>wafer_mass := wafer_mass (update_wafer_properties (s\<lparr>wafer_type := 1\<rparr>)),
               wafer_radius := wafer_radius (update_wafer_properties (s\<lparr>wafer_type := 1\<rparr>)),
               chuck_area := math_pi * (0.030 ^ 2)\<rparr>
         \<and> wafer_radius (update_wafer_properties (s\<lparr>wafer_type := 1\<rparr>)) = 0.150"
  using assms by (simp add: update_wafer_properties_def Let_def)

text \<open>C4 at the wafer type -4.\<close>

theorem update_unrecognized_wafer_type_witness:
  "(- 4 :: int) \<notin> {1, 2, 3}
   \<and> update_wafer_properties (init\<lparr>wafer_type := - 4\<rparr>)
       = init\<lparr>wafer_type := - 4,
              wafer_mass := wafer_mass (update_wafer_properties (init\<lparr>wafer_type := 1\<rparr>)),
              wafer_radius := 0.150,
              chuck_area := math_pi * (0.030 ^ 2)\<rparr>"
  using update_unrecognized_wafer_type [of "init\<lparr>wafer_type := - 4\<rparr>"] by simp

subsection \<open>C5: the step keeps no memory\<close>

text \<open>
  C5. Two steps on objects with the same three inputs and the same two parameters, at
  any times and step sizes and whatever outputs and derived fields the objects hold from
  earlier steps, return the same object, so the same \<open>slip_factor\<close>,
  \<open>max_safe_acceleration\<close> and \<open>is_slipping\<close>; and a further step on the returned
  object returns it again.
\<close>

theorem do_step_memoryless:
  assumes "angular_acceleration s' = angular_acceleration s"
    and "vacuum_pressure s' = vacuum_pressure s"
    and "wafer_type s' = wafer_type s"
    and "mu_friction s' = mu_friction s"
    and "safety_margin s' = safety_margin s"
  shows "\<exists>r. do_step s t h = Inr (r, True)
           \<and> do_step s' t' h' = Inr (r, True)
           \<and> do_step r t'' h'' = Inr (r, True)"
proof -
  obtain r where 1: "do_step s t h = Inr (r, True)"
    by (simp add: do_step_unfold)
  have 2: "do_step s' t' h' = Inr (r, True)"
    using do_step_inputs_only [OF assms, of t' h' t h] 1 by simp
  have 3: "do_step r t'' h'' = Inr (r, True)"
    using 1 by (rule do_step_fixpoint)
  from 1 2 3 show ?thesis by blast
qed

text \<open>
  C5 at 53000 Pa and 5 rad/s^2 on the default 300mm object: once fresh, once holding the
  outputs 999, 7 and True of an earlier step, at other times and step sizes.
\<close>

theorem do_step_memoryless_witness:
  "do_step (init\<lparr>vacuum_pressure := 53000, angular_acceleration := 5\<rparr>) 0 (1 / 10)
     = Inr (init\<lparr>vacuum_pressure := 53000, angular_acceleration := 5,
                 slip_factor := 233 / 339200, max_safe_acceleration := 1696000 / 233,
                 is_slipping := False\<rparr>, True)
   \<and> do_step (init\<lparr>vacuum_pressure := 53000, angular_acceleration := 5,
                   slip_factor := 999, max_safe_acceleration := 7, is_slipping := True\<rparr>) 3 (1 / 100)
     = Inr (init\<lparr>vacuum_pressure := 53000, angular_acceleration := 5,
                 slip_factor := 233 / 339200, max_safe_acceleration := 1696000 / 233,
                 is_slipping := False\<rparr>, True)
   \<and> do_step (init\<lparr>vacuum_pressure := 53000, angular_acceleration := 5,
                   slip_factor := 233 / 339200, max_safe_acceleration := 1696000 / 233,
                   is_slipping := False\<rparr>) 8 2
     = Inr (init\<lparr>vacuum_pressure := 53000, angular_acceleration := 5,
                 slip_factor := 233 / 339200, max_safe_acceleration := 1696000 / 233,
                 is_slipping := False\<rparr>, True)"
proof -
  let ?s = "init\<lparr>vacuum_pressure := 53000, angular_acceleration := 5\<rparr>"
  let ?s' = "init\<lparr>vacuum_pressure := 53000, angular_acceleration := 5,
                   slip_factor := 999, max_safe_acceleration := 7, is_slipping := True\<rparr>"
  have 1: "do_step ?s 0 (1 / 10)
     = Inr (init\<lparr>vacuum_pressure := 53000, angular_acceleration := 5,
                 slip_factor := 233 / 339200, max_safe_acceleration := 1696000 / 233,
                 is_slipping := False\<rparr>, True)"
    by (simp add: eval_defs)
  have "\<exists>r. do_step ?s 0 (1 / 10) = Inr (r, True)
           \<and> do_step ?s' 3 (1 / 100) = Inr (r, True)
           \<and> do_step r 8 2 = Inr (r, True)"
    by (rule do_step_memoryless) simp_all
  with 1 show ?thesis by auto
qed

subsection \<open>C6: the slip factor against the acceleration\<close>

text \<open>
  C6. With the vacuum pressure, the wafer type and the parameters fixed, the slip factor
  a step computes does not decrease with |angular\_acceleration|: if |a1| \<le> |a2|, the
  slip factor with a2 is at least the slip factor with a1.
\<close>

theorem slip_factor_mono_acceleration:
  assumes "\<bar>a1\<bar> \<le> \<bar>a2\<bar>"
    and "do_step (s\<lparr>angular_acceleration := a1\<rparr>) t1 h1 = Inr (s1, b1)"
    and "do_step (s\<lparr>angular_acceleration := a2\<rparr>) t2 h2 = Inr (s2, b2)"
  shows "slip_factor s1 \<le> slip_factor s2"
proof -
  let ?u = "update_wafer_properties s"
  let ?ff = "mu_friction s * (\<bar>vacuum_pressure s\<bar> * chuck_area ?u)"
  have d: "wafer_mass (update_wafer_properties (s\<lparr>angular_acceleration := a\<rparr>)) = wafer_mass ?u"
    "wafer_radius (update_wafer_properties (s\<lparr>angular_acceleration := a\<rparr>)) = wafer_radius ?u"
    "chuck_area (update_wafer_properties (s\<lparr>angular_acceleration := a\<rparr>)) = chuck_area ?u" for a
    by (simp_all add: update_derived_by_type [of "s\<lparr>angular_acceleration := a\<rparr>" s])
  have sf1: "slip_factor s1 = (if ?ff > 0.001 then wafer_mass ?u * wafer_radius ?u * \<bar>a1\<bar> / ?ff else 999)"
    using do_step_slip_factor [OF assms(2)] by (simp add: d)
  have sf2: "slip_factor s2 = (if ?ff > 0.001 then wafer_mass ?u * wafer_radius ?u * \<bar>a2\<bar> / ?ff else 999)"
    using do_step_slip_factor [OF assms(3)] by (simp add: d)
  have mr: "0 \<le> wafer_mass ?u * wafer_radius ?u"
    using update_wafer_mass_pos [of s] update_wafer_radius_pos [of s] by simp
  show ?thesis
  proof (cases "?ff > 0.001")
    case True
    then have "0 \<le> ?ff" by simp
    moreover have "wafer_mass ?u * wafer_radius ?u * \<bar>a1\<bar> \<le> wafer_mass ?u * wafer_radius ?u * \<bar>a2\<bar>"
      using mr assms(1) by (rule mult_left_mono [rotated])
    ultimately show ?thesis
      using True by (simp add: sf1 sf2 divide_right_mono)
  next
    case False
    then show ?thesis by (simp add: sf1 sf2)
  qed
qed

text \<open>
  C6 at the accelerations 5 and -150000 rad/s^2, 53000 Pa, on the default 300mm
  object.
\<close>

theorem slip_factor_mono_acceleration_witness:
  "\<bar>5 :: real\<bar> \<le> \<bar>- 150000\<bar>
   \<and> do_step (init\<lparr>vacuum_pressure := 53000, angular_acceleration := 5\<rparr>) 0 (1 / 10)
       = Inr (init\<lparr>vacuum_pressure := 53000, angular_acceleration := 5,
                   slip_factor := 233 / 339200, max_safe_acceleration := 1696000 / 233,
                   is_slipping := False\<rparr>, True)
   \<and> do_step (init\<lparr>vacuum_pressure := 53000, angular_acceleration := - 150000\<rparr>) (1 / 10) (1 / 10)
       = Inr (init\<lparr>vacuum_pressure := 53000, angular_acceleration := - 150000,
                   slip_factor := 17475 / 848, max_safe_acceleration := 1696000 / 233,
                   is_slipping := True\<rparr>, True)
   \<and> (233 / 339200 :: real) \<le> 17475 / 848"
proof -
  have 1: "do_step ((init\<lparr>vacuum_pressure := 53000\<rparr>)\<lparr>angular_acceleration := 5\<rparr>) 0 (1 / 10)
       = Inr (init\<lparr>vacuum_pressure := 53000, angular_acceleration := 5,
                   slip_factor := 233 / 339200, max_safe_acceleration := 1696000 / 233,
                   is_slipping := False\<rparr>, True)"
    by (simp add: eval_defs)
  have 2: "do_step ((init\<lparr>vacuum_pressure := 53000\<rparr>)\<lparr>angular_acceleration := - 150000\<rparr>) (1 / 10) (1 / 10)
       = Inr (init\<lparr>vacuum_pressure := 53000, angular_acceleration := - 150000,
                   slip_factor := 17475 / 848, max_safe_acceleration := 1696000 / 233,
                   is_slipping := True\<rparr>, True)"
    by (simp add: eval_defs)
  have 0: "\<bar>5 :: real\<bar> \<le> \<bar>- 150000\<bar>" by simp
  from slip_factor_mono_acceleration [OF 0 1 2] 0 1 2 show ?thesis by simp
qed

subsection \<open>C7: setup and reset\<close>

text \<open>
  C7. \<open>setup_experiment\<close> (the spec's configure\_experiment) and \<open>reset\<close> each set
  \<open>slip_factor\<close> to 0.0 and \<open>is_slipping\<close> to false and leave every other field as it
  was: the three inputs, the two parameters, \<open>max_safe_acceleration\<close> and the derived
  mass, radius and chuck area.
\<close>

theorem setup_experiment_reset_frame:
  "setup_experiment s start_time stop_time tolerance
     = (s\<lparr>slip_factor := 0, is_slipping := False\<rparr>, True)
   \<and> reset s = (s\<lparr>slip_factor := 0, is_slipping := False\<rparr>, True)
   \<and> slip_factor (fst (reset s)) = 0
   \<and> is_slipping (fst (reset s)) = False
   \<and> angular_acceleration (fst (reset s)) = angular_acceleration s
   \<and> vacuum_pressure (fst (reset s)) = vacuum_pressure s
   \<and> wafer_type (fst (reset s)) = wafer_type s
   \<and> mu_friction (fst (reset s)) = mu_friction s
   \<and> safety_margin (fst (reset s)) = safety_margin s
   \<and> max_safe_acceleration (fst (reset s)) = max_safe_acceleration s
   \<and> wafer_mass (fst (reset s)) = wafer_mass s
   \<and> wafer_radius (fst (reset s)) = wafer_radius s
   \<and> chuck_area (fst (reset s)) = chuck_area s"
  by (simp add: setup_experiment_def reset_def)

subsection \<open>C8: the outputs are not negative\<close>

text \<open>
  C8. When \<open>mu_friction\<close> is not negative, the \<open>slip_factor\<close> and the
  \<open>max_safe_acceleration\<close> a step writes are not negative, whatever the sign of the
  vacuum pressure and of the acceleration.
\<close>

theorem do_step_outputs_nonneg:
  assumes "0 \<le> mu_friction s"
    and "do_step s t h = Inr (s', b)"
  shows "0 \<le> slip_factor s' \<and> 0 \<le> max_safe_acceleration s'"
proof -
  let ?u = "update_wafer_properties s"
  have m: "0 < wafer_mass ?u" and r: "0 < wafer_radius ?u" and a: "0 < chuck_area ?u"
    by (rule update_wafer_mass_pos update_wafer_radius_pos update_chuck_area_pos)+
  have ff: "0 \<le> mu_friction s * (\<bar>vacuum_pressure s\<bar> * chuck_area ?u)"
    using assms(1) a by simp
  have "0 \<le> slip_factor s'"
    using m r ff by (simp add: do_step_slip_factor [OF assms(2)])
  moreover have "0 \<le> max_safe_acceleration s'"
    using m r ff by (simp add: do_step_max_safe_acceleration [OF assms(2)])
  ultimately show ?thesis ..
qed

text \<open>
  C8 at -53000 Pa and -5 rad/s^2 on the default 300mm object: the step accepts both
  and writes the outputs of 53000 Pa and 5 rad/s^2.
\<close>

theorem do_step_outputs_nonneg_witness:
  "(0 :: real) \<le> mu_friction (init\<lparr>vacuum_pressure := - 53000, angular_acceleration := - 5\<rparr>)
   \<and> do_step (init\<lparr>vacuum_pressure := - 53000, angular_acceleration := - 5\<rparr>) 0 (1 / 10)
       = Inr (init\<lparr>vacuum_pressure := - 53000, angular_acceleration := - 5,
                   slip_factor := 233 / 339200, max_safe_acceleration := 1696000 / 233,
                   is_slipping := False\<rparr>, True)
   \<and> (0 :: real) \<le> 233 / 339200 \<and> (0 :: real) \<le> 1696000 / 233"
proof -
  have 0: "0 \<le> mu_friction (init\<lparr>vacuum_pressure := - 53000, angular_acceleration := - 5\<rparr>)"
    by (simp add: eval_defs)
  have 1: "do_step (init\<lparr>vacuum_pressure := - 53000, angular_acceleration := - 5\<rparr>) 0 (1 / 10)
       = Inr (init\<lparr>vacuum_pressure := - 53000, angular_acceleration := - 5,
                   slip_factor := 233 / 339200, max_safe_acceleration := 1696000 / 233,
                   is_slipping := False\<rparr>, True)"
    by (simp add: eval_defs)
  from do_step_outputs_nonneg [OF 0 1] 0 1 show ?thesis by simp
qed

subsection \<open>C9: the step cannot fail\<close>

text \<open>
  C9. For every state, whatever the inputs, the parameters and the wafer type, a step
  raises no \<open>ZeroDivisionError\<close> and returns True: the divisor of the first division
  exceeds 1e-3 under its guard, the divisor of the second is a product of two positive
  numbers under its guard.
\<close>

theorem do_step_never_raises: "\<exists>s'. do_step s t h = Inr (s', True)"
  by (simp add: do_step_unfold)

subsection \<open>C10: the guard on mass and radius\<close>

text \<open>
  C10. For every \<open>wafer_type\<close> the resolver sets a positive \<open>wafer_mass\<close> and a
  positive \<open>wafer_radius\<close>, so the guard of the second division of a step always holds,
  and after every step \<open>max_safe_acceleration\<close> is the friction force divided by
  \<open>wafer_mass * wafer_radius\<close>, never the 0.0 of the other branch.
\<close>

theorem update_positive_guard_always_holds:
  "0 < wafer_mass (update_wafer_properties s)
   \<and> 0 < wafer_radius (update_wafer_properties s)
   \<and> (\<exists>s'. do_step s t h = Inr (s', True)
         \<and> wafer_mass s' = wafer_mass (update_wafer_properties s)
         \<and> wafer_radius s' = wafer_radius (update_wafer_properties s)
         \<and> max_safe_acceleration s'
             = mu_friction s * (\<bar>vacuum_pressure s\<bar> * chuck_area s') / (wafer_mass s' * wafer_radius s'))"
  by (simp add: do_step_unfold update_wafer_mass_pos update_wafer_radius_pos)

end
